theory Spec2Isabelle
  imports Complex_Main
begin

section \<open>Planar shapes and the drawing primitives\<close>

text \<open>
  The components build their geometry through the \<^verbatim>\<open>draw\<close> module of the host
  framework. A shape is kept as the expression that built it: polygons and line strings
  by their vertices, the disc \<^verbatim>\<open>Point(x, y).buffer(r)\<close> by centre and radius, unions
  and differences by their operands. Lengths are real numbers in the host's unit
  (millimetres), angles are degrees.
\<close>

type_synonym point = "real \<times> real"

datatype shape =
    Polygon "point list"
  | LineString "point list"
  | Buffer point real
  | Union "shape list"
  | Subtract shape shape

text \<open>
  The errors of a build: the \<^verbatim>\<open>ConfigurationError\<close> of a drawing primitive that is
  given a width or a height that is not positive, and Python's \<^verbatim>\<open>ZeroDivisionError\<close>.
  A step that may raise returns \<open>Inl\<close> of the error; \<open>and_then\<close> runs the rest of a
  build on the value of a step that returned, and stops at the first error.
\<close>

datatype error = ConfigurationError | ZeroDivisionError

definition and_then :: "error + 'a \<Rightarrow> ('a \<Rightarrow> error + 'b) \<Rightarrow> error + 'b" where
  "and_then r f = (case r of Inl e \<Rightarrow> Inl e | Inr x \<Rightarrow> f x)"

text \<open>
  Modelled from the spec: \<^verbatim>\<open>draw.box\<close> and \<^verbatim>\<open>draw.rectangle\<close> (the draw module is not
  among the sources). \<^verbatim>\<open>box(x_min, y_min, x_max, y_max)\<close> is the axis-aligned rectangle
  with these corners; \<^verbatim>\<open>rectangle(width, height, center_x, center_y)\<close> is the
  axis-aligned rectangle of that size around that centre, and it rejects a width or a
  height that is not positive with a \<^verbatim>\<open>ConfigurationError\<close>.
\<close>

definition box :: "real \<Rightarrow> real \<Rightarrow> real \<Rightarrow> real \<Rightarrow> shape" where
  "box x_min y_min x_max y_max =
     Polygon [(x_max, y_min), (x_max, y_max), (x_min, y_max), (x_min, y_min)]"

definition rectangle :: "real \<Rightarrow> real \<Rightarrow> real \<Rightarrow> real \<Rightarrow> error + shape" where
  "rectangle w h xoff yoff =
     (if w \<le> 0 \<or> h \<le> 0 then Inl ConfigurationError
      else Inr (box (- w / 2 + xoff) (- h / 2 + yoff) (w / 2 + xoff) (h / 2 + yoff)))"

text \<open>
  Modelled from the spec: \<^verbatim>\<open>draw.rotate\<close> and \<^verbatim>\<open>draw.translate\<close>. The rotation is
  counterclockwise about the origin \<open>(0, 0)\<close> by an angle in degrees; both act on every
  point of a shape, and on every shape of a list.
\<close>

definition rotate_point :: "real \<Rightarrow> point \<Rightarrow> point" where
  "rotate_point angle P =
     (let a = angle * pi / 180
      in (fst P * cos a - snd P * sin a, fst P * sin a + snd P * cos a))"

definition translate_point :: "real \<Rightarrow> real \<Rightarrow> point \<Rightarrow> point" where
  "translate_point xoff yoff P = (fst P + xoff, snd P + yoff)"

fun map_shape :: "(point \<Rightarrow> point) \<Rightarrow> shape \<Rightarrow> shape" where
  "map_shape f (Polygon ps) = Polygon (map f ps)"
| "map_shape f (LineString ps) = LineString (map f ps)"
| "map_shape f (Buffer c r) = Buffer (f c) r"
| "map_shape f (Union ss) = Union (map (map_shape f) ss)"
| "map_shape f (Subtract a b) = Subtract (map_shape f a) (map_shape f b)"

definition rotate :: "shape \<Rightarrow> real \<Rightarrow> shape" where
  "rotate s angle = map_shape (rotate_point angle) s"

definition translate :: "shape \<Rightarrow> real \<Rightarrow> real \<Rightarrow> shape" where
  "translate s xoff yoff = map_shape (translate_point xoff yoff) s"

definition rotate_all :: "shape list \<Rightarrow> real \<Rightarrow> shape list" where
  "rotate_all ss angle = map (\<lambda>s. rotate s angle) ss"

definition translate_all :: "shape list \<Rightarrow> real \<Rightarrow> real \<Rightarrow> shape list" where
  "translate_all ss xoff yoff = map (\<lambda>s. translate s xoff yoff) ss"

text \<open>
  Reference points and measures of shapes. The mean of the vertices of a polygon is the
  centre of a rectangle. The anchor of a shape is its first vertex (the centre for a
  disc, the first operand's anchor for a union or a difference): a point that moves with
  the shape under every rotation and translation.
\<close>

definition vertex_mean :: "point list \<Rightarrow> point" where
  "vertex_mean ps =
     (sum_list (map fst ps) / real (length ps), sum_list (map snd ps) / real (length ps))"

fun centre :: "shape \<Rightarrow> point option" where
  "centre (Polygon ps) = (if ps = [] then None else Some (vertex_mean ps))"
| "centre (Buffer c r) = Some c"
| "centre s = None"

fun anchor :: "shape \<Rightarrow> point option" where
  "anchor (Polygon ps) = (case ps of [] \<Rightarrow> None | P # _ \<Rightarrow> Some P)"
| "anchor (LineString ps) = (case ps of [] \<Rightarrow> None | P # _ \<Rightarrow> Some P)"
| "anchor (Buffer c r) = Some c"
| "anchor (Union ss) = (case ss of [] \<Rightarrow> None | s # _ \<Rightarrow> anchor s)"
| "anchor (Subtract a b) = anchor a"

text \<open>
  The vector from the anchor of one shape to the anchor of another.
\<close>

definition relative_vector :: "shape \<Rightarrow> shape \<Rightarrow> point option" where
  "relative_vector a b =
     (case (anchor a, anchor b) of
        (Some P, Some Q) \<Rightarrow> Some (fst Q - fst P, snd Q - snd P)
      | _ \<Rightarrow> None)"

text \<open>
  The area of a union of axis-aligned rectangles, by inclusion and exclusion: the area of
  \<open>b \<union> B\<close> is the area of \<open>b\<close> plus the area of \<open>B\<close> minus the area of \<open>b \<inter> B\<close>, and
  \<open>b \<inter> B\<close> is the union of the rectangles \<open>b \<inter> b'\<close> for \<open>b'\<close> in \<open>B\<close>. An aligned
  rectangle is \<open>(x_min, y_min, x_max, y_max)\<close>; it is empty when a side is not positive.
\<close>

type_synonym aligned = "real \<times> real \<times> real \<times> real"

fun aligned_area :: "aligned \<Rightarrow> real" where
  "aligned_area (x0, y0, x1, y1) = max 0 (x1 - x0) * max 0 (y1 - y0)"

fun aligned_inter :: "aligned \<Rightarrow> aligned \<Rightarrow> aligned" where
  "aligned_inter (x0, y0, x1, y1) (u0, v0, u1, v1) =
     (max x0 u0, max y0 v0, min x1 u1, min y1 v1)"

fun union_area :: "aligned list \<Rightarrow> real" where
  "union_area [] = 0"
| "union_area (b # bs) =
     aligned_area b + union_area bs - union_area (map (aligned_inter b) bs)"

fun as_aligned :: "shape \<Rightarrow> aligned option" where
  "as_aligned (Polygon [(x1, y0), (x1', y1), (x0, y1'), (x0', y0')]) =
     (if x1 = x1' \<and> y1 = y1' \<and> x0 = x0' \<and> y0 = y0' then Some (x0, y0, x1, y1) else None)"
| "as_aligned s = None"

fun area :: "shape \<Rightarrow> real option" where
  "area (Polygon ps) = map_option aligned_area (as_aligned (Polygon ps))"
| "area (Union ss) = map_option union_area (those (map as_aligned ss))"
| "area s = None"

section \<open>The host design: geometry table and pins\<close>

text \<open>
  A component writes into the geometry table of the host design through
  \<^verbatim>\<open>add_qgeometry(kind, {name: shape, ...}, **attributes)\<close> and registers its pins
  through \<^verbatim>\<open>add_pin(name, points, width, input_as_norm)\<close>. The table is an append-only
  sink: every call adds one entry for each name of its dictionary, in order. An
  attribute that a call does not pass is \<open>None\<close>, except \<^verbatim>\<open>subtract\<close>, whose default
  is \<open>False\<close>.
\<close>

datatype category = Poly | Path | Junction

datatype inductance =
    Float_nH real
  | Option_value string

record attributes =
  attr_subtract :: bool
  attr_width :: "real option"
  attr_layer :: "int option"
  attr_chip :: "string option"
  attr_hfss_inductance :: "inductance option"
  attr_gds_cell_name :: "string option"

definition no_attributes :: attributes where
  "no_attributes =
     \<lparr>attr_subtract = False, attr_width = None, attr_layer = None, attr_chip = None,
      attr_hfss_inductance = None, attr_gds_cell_name = None\<rparr>"

record qgeometry =
  q_kind :: category
  q_name :: string
  q_shape :: shape
  q_attributes :: attributes

record pin =
  pin_name :: string
  pin_points :: "point list"
  pin_width :: real
  pin_input_as_norm :: bool

record component =
  qgeometry_table :: "qgeometry list"
  pins :: "pin list"

definition new_component :: component where
  "new_component = \<lparr>qgeometry_table = [], pins = []\<rparr>"

definition add_qgeometry ::
    "category \<Rightarrow> (string \<times> shape) list \<Rightarrow> attributes \<Rightarrow> component \<Rightarrow> component" where
  "add_qgeometry kind geometry attrs c =
     c\<lparr>qgeometry_table := qgeometry_table c @
          map (\<lambda>(n, s). \<lparr>q_kind = kind, q_name = n, q_shape = s, q_attributes = attrs\<rparr>)
            geometry\<rparr>"

definition add_pin :: "string \<Rightarrow> point list \<Rightarrow> real \<Rightarrow> bool \<Rightarrow> component \<Rightarrow> component" where
  "add_pin n points w input_as_norm c =
     c\<lparr>pins := pins c @
          [\<lparr>pin_name = n, pin_points = points, pin_width = w,
            pin_input_as_norm = input_as_norm\<rparr>]\<rparr>"

definition entries_of :: "category \<Rightarrow> component \<Rightarrow> qgeometry list" where
  "entries_of kind c = filter (\<lambda>e. q_kind e = kind) (qgeometry_table c)"

definition names_of :: "category \<Rightarrow> component \<Rightarrow> string list" where
  "names_of kind c = map q_name (entries_of kind c)"

text \<open>
  The options every component inherits from \<^verbatim>\<open>QComponent\<close>, resolved to numbers by
  the option parser of the host: a length such as \<^verbatim>\<open>'70um'\<close> is the real number
  \<open>0.07\<close> of millimetres, \<^verbatim>\<open>orientation\<close> is a number of degrees. The tables of
  default options below give the inherited options the values they have in the default
  tables of FluxoniumPocket and Markers: position \<open>(0, 0)\<close>, orientation \<open>0\<close>, chip
  \<^verbatim>\<open>main\<close>, layer \<open>1\<close>.
\<close>

record qcomponent_options =
  pos_x :: real
  pos_y :: real
  orientation :: real
  chip :: string
  layer :: int

section \<open>Frame\<close>

record frame_options = qcomponent_options +
  frame_w :: real
  frame_h :: real
  f_width :: real

definition Frame_default_options :: frame_options where
  "Frame_default_options =
     \<lparr>pos_x = 0, pos_y = 0, orientation = 0, chip = ''main'', layer = 1,
      frame_w = 9, frame_h = 9, f_width = 0.07\<rparr>"

definition Frame_make :: "frame_options \<Rightarrow> component \<Rightarrow> error + component" where
  "Frame_make p c =
     and_then (rectangle (frame_w p) (f_width p) 0 4.5) (\<lambda>line_top.
     and_then (rectangle (f_width p) (frame_h p) 4.5 0) (\<lambda>line_left.
     and_then (rectangle (f_width p) (frame_h p) (- 4.5) 0) (\<lambda>line_right.
     and_then (rectangle (frame_w p) (f_width p) 0 (- 4.5)) (\<lambda>line_bottom.
       let frame = Union [line_top, line_left, line_right, line_bottom];
           polys = [frame];
           polys = rotate_all polys (orientation p);
           polys = translate_all polys (pos_x p) (pos_y p);
           frame = polys ! 0
       in Inr (add_qgeometry Poly [(''frame'', frame)]
                 (no_attributes\<lparr>attr_layer := Some (layer p)\<rparr>) c)))))"

section \<open>Markers\<close>

record markers_options = qcomponent_options +
  marker_sep :: real
  marker_w :: real
  marker_h :: real
  markers_gap :: real

definition Markers_default_options :: markers_options where
  "Markers_default_options =
     \<lparr>pos_x = 0, pos_y = 0, orientation = 0, chip = ''main'', layer = 1,
      marker_sep = 0.04, marker_w = 0.02, marker_h = 0.02, markers_gap = 0.2\<rparr>"

definition Markers_make :: "markers_options \<Rightarrow> component \<Rightarrow> error + component" where
  "Markers_make p c =
     and_then (rectangle (marker_w p) (marker_h p)
                 (pos_x p / 2 + marker_sep p) (pos_y p / 2 + marker_sep p)) (\<lambda>marker_1.
     and_then (rectangle (marker_w p) (marker_h p)
                 (pos_x p / 2 - marker_sep p) (pos_y p / 2 + marker_sep p)) (\<lambda>marker_2.
     and_then (rectangle (marker_w p) (marker_h p)
                 (pos_x p / 2 + marker_sep p) (pos_y p / 2 - marker_sep p)) (\<lambda>marker_3.
     and_then (rectangle (marker_w p) (marker_h p)
                 (pos_x p / 2 - marker_sep p) (pos_y p / 2 - marker_sep p)) (\<lambda>marker_4.
     let markers = Union [marker_1, marker_2, marker_3, marker_4] in
     and_then (rectangle (markers_gap p) (markers_gap p) (pos_x p / 2) (pos_y p / 2))
       (\<lambda>markers_pk.
       let polys = [markers, markers_pk];
           polys = rotate_all polys (orientation p);
           polys = translate_all polys (pos_x p / 2) (pos_y p / 2);
           markers = polys ! 0;
           markers_pk = polys ! 1;
           c = add_qgeometry Poly [(''markers'', markers)]
                 (no_attributes\<lparr>attr_layer := Some (layer p)\<rparr>) c
       in Inr (add_qgeometry Poly [(''markers_pk'', markers_pk)]
                 (no_attributes\<lparr>attr_subtract := True, attr_layer := Some (layer p)\<rparr>)
                 c))))))"

text \<open>
  The operands of a union (a shape that is not a union is its only part).
\<close>

fun parts :: "shape \<Rightarrow> shape list" where
  "parts (Union ss) = ss"
| "parts s = [s]"

section \<open>JunctionArray\<close>

text \<open>
  \<^verbatim>\<open>'{:d}'.format(idx)\<close> for an index of \<^verbatim>\<open>range\<close>: the decimal digits of a natural
  number.
\<close>

fun format_d :: "nat \<Rightarrow> string" where
  "format_d n =
     (if n < 10 then [''0123456789'' ! n]
      else format_d (n div 10) @ [''0123456789'' ! (n mod 10)])"

declare format_d.simps [simp del]

text \<open>
  Python's \<^verbatim>\<open>int(x)\<close> on a number truncates towards zero, and \<^verbatim>\<open>range(k)\<close> is
  \<open>0, \<dots>, k - 1\<close> (empty for \<open>k \<le> 0\<close>).
\<close>

definition py_int :: "real \<Rightarrow> int" where
  "py_int x = (if 0 \<le> x then \<lfloor>x\<rfloor> else \<lceil>x\<rceil>)"

definition py_range :: "int \<Rightarrow> nat list" where
  "py_range k = [0 ..< nat k]"

record junction_array_options = qcomponent_options +
  ground_gap_x :: real
  ground_gap_y :: real
  array_pad_x :: real
  array_pad_y :: real
  array_gap_y :: real
  junction_thickness :: real
  n_junction :: real

definition JunctionArray_default_options :: junction_array_options where
  "JunctionArray_default_options =
     \<lparr>pos_x = 0, pos_y = 0, orientation = 0, chip = ''main'', layer = 1,
      ground_gap_x = 0.02, ground_gap_y = 0.02, array_pad_x = 0.02, array_pad_y = 0.05,
      array_gap_y = 0.01, junction_thickness = 0.01, n_junction = 10\<rparr>"

text \<open>
  The body of the loop of \<^verbatim>\<open>make_jj_array\<close>, over the indices still to come; the
  running offset \<^verbatim>\<open>junc_yoff\<close> and the component are the loop's state.
\<close>

fun jj_array_loop ::
    "junction_array_options \<Rightarrow> shape \<Rightarrow> shape \<Rightarrow> nat list \<Rightarrow> real \<Rightarrow> component \<Rightarrow> component" where
  "jj_array_loop p jj_pad rect_jj [] junc_yoff c = c"
| "jj_array_loop p jj_pad rect_jj (idx # rest) junc_yoff c =
     (let pad_junc = translate jj_pad 0 junc_yoff;
          c = add_qgeometry Poly [(''jj_pad_'' @ format_d idx, pad_junc)]
                (no_attributes\<lparr>attr_layer := Some (layer p), attr_chip := Some (chip p)\<rparr>) c;
          sim_junction = translate rect_jj 0 junc_yoff;
          sim_junction = rotate sim_junction (orientation p);
          sim_junction = translate sim_junction (pos_x p) (pos_y p);
          c = (if real idx \<noteq> n_junction p
               then add_qgeometry Junction [(''rect_jj_'' @ format_d idx, sim_junction)]
                      (no_attributes\<lparr>attr_width := Some (junction_thickness p),
                         attr_chip := Some (chip p),
                         attr_gds_cell_name := Some (''FakeJunction_0'' @ format_d (idx + 1))\<rparr>) c
               else c);
          y_increment = array_pad_y p + array_gap_y p
      in jj_array_loop p jj_pad rect_jj rest (junc_yoff + y_increment) c)"

definition make_jj_array :: "junction_array_options \<Rightarrow> component \<Rightarrow> component" where
  "make_jj_array p c =
     (let jj_pad = box (- array_pad_x p / 2) (- array_pad_y p / 2)
                     (array_pad_x p / 2) (array_pad_y p / 2);
          jj_pad = rotate jj_pad (orientation p);
          jj_pad = translate jj_pad (pos_x p) (pos_y p);
          rect_jj = LineString [(0, 0), (0, array_gap_y p)];
          yoff_junction_elem1 = array_pad_y p / 2;
          rect_jj = translate rect_jj 0 yoff_junction_elem1
      in jj_array_loop p jj_pad rect_jj (py_range (py_int (n_junction p + 1))) 0 c)"

definition make_buffer_ground :: "junction_array_options \<Rightarrow> component \<Rightarrow> component" where
  "make_buffer_ground p c =
     (let ground_width = array_pad_x p + 2 * ground_gap_x p;
          ground_height = real_of_int (py_int (n_junction p + 1)) * array_pad_y p
                          + real_of_int (py_int (n_junction p)) * array_gap_y p
                          + 2 * ground_gap_y p;
          ground_bottom_y = - array_pad_y p / 2 - ground_gap_y p;
          ground_etch = box (- ground_width / 2) ground_bottom_y
                          (ground_width / 2) (ground_bottom_y + ground_height);
          ground_etch = rotate ground_etch (orientation p);
          ground_etch = translate ground_etch (pos_x p) (pos_y p)
      in add_qgeometry Poly [(''ground_etch'', ground_etch)]
           (no_attributes\<lparr>attr_layer := Some (layer p), attr_chip := Some (chip p),
              attr_subtract := True\<rparr>) c)"

definition JunctionArray_make :: "junction_array_options \<Rightarrow> component \<Rightarrow> component" where
  "JunctionArray_make p c = make_buffer_ground p (make_jj_array p c)"

section \<open>FluxoniumPocket\<close>

text \<open>
  The options of the qubit. The three nested dictionaries are records of their own; their
  fields carry the dictionary's prefix where a name occurs in more than one of them.
  \<^verbatim>\<open>l_inductance\<close> and \<^verbatim>\<open>l_ind_per_square\<close> are the numbers that
  \<^verbatim>\<open>float(p.l_inductance.replace('nH',''))\<close> reads from the option strings.
\<close>

record fbl_options =
  make_fbl :: bool
  fbl_sep :: real
  fbl_height :: real
  fbl_cpw_width :: real
  fbl_cpw_gap :: real

record cl_options =
  make_cl :: bool
  cl_sep :: real
  cl_cpw_width :: real
  cl_cpw_gap :: real

record rol_options =
  make_rol :: bool
  rol_pad_sep :: real
  rol_pad_width :: real
  rol_pad_height :: real
  rol_pad_gap :: real
  rol_cpw_width :: real
  rol_cpw_gap :: real

record fluxonium_options = qcomponent_options +
  width :: real
  height :: real
  pad_gap :: real
  inductor_width :: real
  pad_width :: real
  pad_height :: real
  pad_radius :: real
  l_width :: real
  l_arm_length :: real
  l_inductance :: real
  l_ind_per_square :: real
  l_fillet :: real
  L_j :: string
  pocket_width :: real
  pocket_height :: real
  flux_bias_line_options :: fbl_options
  charge_line_options :: cl_options
  readout_line_options :: rol_options

definition FluxoniumPocket_default_options :: fluxonium_options where
  "FluxoniumPocket_default_options =
     \<lparr>pos_x = 0, pos_y = 0, orientation = 0, chip = ''main'', layer = 1,
      width = 1.2, height = 1.2, pad_gap = 0.03, inductor_width = 0.01,
      pad_width = 0.015, pad_height = 0.2, pad_radius = 0.05, l_width = 0.001,
      l_arm_length = 0.05, l_inductance = 200, l_ind_per_square = 2, l_fillet = 0.005,
      L_j = ''16.35nH'', pocket_width = 0.8, pocket_height = 0.8,
      flux_bias_line_options =
        \<lparr>make_fbl = False, fbl_sep = 0.05, fbl_height = 0.05, fbl_cpw_width = 0.01,
         fbl_cpw_gap = 0.01\<rparr>,
      charge_line_options =
        \<lparr>make_cl = False, cl_sep = 0.015, cl_cpw_width = 0.01, cl_cpw_gap = 0.01\<rparr>,
      readout_line_options =
        \<lparr>make_rol = False, rol_pad_sep = 0.02, rol_pad_width = 0.15, rol_pad_height = 0.05,
         rol_pad_gap = 0.01, rol_cpw_width = 0.01, rol_cpw_gap = 0.01\<rparr>\<rparr>"

definition qpin_rotate_translate :: "fluxonium_options \<Rightarrow> point \<Rightarrow> point" where
  "qpin_rotate_translate p x =
     (let z0 = fst x * cos (orientation p * 3.14159 / 180)
               - snd x * sin (orientation p * 3.14159 / 180);
          z1 = fst x * sin (orientation p * 3.14159 / 180)
               + snd x * cos (orientation p * 3.14159 / 180);
          z0 = z0 + pos_x p;
          z1 = z1 + pos_y p
      in (z0, z1))"

text \<open>
  The total length of the inductor. The division raises \<^verbatim>\<open>ZeroDivisionError\<close> when
  \<^verbatim>\<open>ind_per_square\<close> is zero.
\<close>

definition compute_L_tot :: "fluxonium_options \<Rightarrow> error + real" where
  "compute_L_tot p =
     (if l_ind_per_square p = 0 then Inl ZeroDivisionError
      else Inr (l_inductance p * l_width p / l_ind_per_square p))"

text \<open>
  \<^verbatim>\<open>make_pocket\<close>, in the order of the source: the rectangle of the pad is drawn
  before \<^verbatim>\<open>L_tot\<close> is computed, the other rectangles after it. The unpacking
  \<^verbatim>\<open>[rect_jj, pad_top, pad_bot, rect_pk, poly_wire_top, poly_wire_top, inductor] = polys\<close>
  binds the names to the elements by position, the second \<^verbatim>\<open>poly_wire_top\<close> after
  the first; \<^verbatim>\<open>poly_wire_bot\<close> keeps the value it had.
\<close>

definition make_pocket :: "fluxonium_options \<Rightarrow> component \<Rightarrow> error + component" where
  "make_pocket p c =
     (let rect_jj = LineString [(0, - pad_gap p / 2), (0, pad_gap p / 2)] in
      and_then (rectangle (pad_width p) (pad_height p - pad_radius p) 0 0) (\<lambda>pad_rect.
      let pad_circle = Buffer (0, (pad_height p - pad_radius p) / 2) (pad_radius p);
          pad = Union [pad_rect, pad_circle];
          pad_top = translate pad 0 ((pad_height p + pad_gap p - pad_radius p) / 2);
          pad_bot = rotate pad_top 180 in
      and_then (compute_L_tot p) (\<lambda>L_tot.
      let outer_circle = Buffer (0, 0) (l_fillet p + l_width p / 2);
          inner_circle = Buffer (0, 0) (l_fillet p - l_width p / 2);
          circle = Subtract outer_circle inner_circle in
      and_then (rectangle (l_fillet p + l_width p / 2) (2 * l_fillet p + l_width p)
                  (- (l_fillet p + l_width p / 2) / 2) 0) (\<lambda>left_half.
      let semicircle = Subtract circle left_half in
      and_then (rectangle (2 * l_fillet p + l_width p) (l_fillet p + l_width p / 2)
                  0 (- (l_fillet p + l_width p / 2) / 2)) (\<lambda>lower_half.
      let poly_seg = Subtract semicircle lower_half in
      and_then (rectangle (l_arm_length p) (l_width p) 0 0) (\<lambda>arm_top.
      let mount_top = translate arm_top
            ((pad_width p + l_arm_length p) / 2) (L_tot / 2 + l_fillet p) in
      and_then (rectangle (l_arm_length p) (l_width p) 0 0) (\<lambda>arm_bot.
      let mount_bot = translate arm_bot
            ((pad_width p + l_arm_length p) / 2) (- L_tot / 2 - l_fillet p);
          seg_top = translate poly_seg (l_arm_length p + pad_width p / 2) (L_tot / 2);
          seg_bot = translate (rotate poly_seg (- 90))
            (l_arm_length p + pad_width p / 2) (- L_tot / 2);
          poly_wire_top = Union [mount_top, seg_top];
          poly_wire_bot = Union [seg_bot, mount_bot];
          c' = (pad_width p / 2 + l_arm_length p + l_fillet p, L_tot / 2);
          d = (pad_width p / 2 + l_arm_length p + l_fillet p, - L_tot / 2);
          inductor = LineString [c', d] in
      and_then (rectangle (pocket_width p) (pocket_height p) 0 0) (\<lambda>rect_pk.
      let polys = [rect_jj, pad_top, pad_bot, rect_pk, poly_wire_top, poly_wire_top, inductor];
          polys = rotate_all polys (orientation p);
          polys = translate_all polys (pos_x p) (pos_y p);
          rect_jj = polys ! 0;
          pad_top = polys ! 1;
          pad_bot = polys ! 2;
          rect_pk = polys ! 3;
          poly_wire_top = polys ! 4;
          poly_wire_top = polys ! 5;
          inductor = polys ! 6;
          c = add_qgeometry Poly
                [(''pad_top'', pad_top), (''pad_bot'', pad_bot),
                 (''poly_wire_top'', poly_wire_top), (''poly_wire_bot'', poly_wire_bot)]
                no_attributes c;
          c = add_qgeometry Poly [(''rect_pk'', rect_pk)]
                (no_attributes\<lparr>attr_subtract := True\<rparr>) c;
          c = add_qgeometry Junction [(''inductor'', inductor)]
                (no_attributes\<lparr>attr_width := Some (l_width p),
                   attr_hfss_inductance := Some (Float_nH (l_inductance p))\<rparr>) c
      in Inr (add_qgeometry Junction [(''rect_jj'', rect_jj)]
                (no_attributes\<lparr>attr_width := Some (inductor_width p),
                   attr_hfss_inductance := Some (Option_value (L_j p))\<rparr>) c)))))))))"

definition make_flux_bias_line :: "fluxonium_options \<Rightarrow> component \<Rightarrow> component" where
  "make_flux_bias_line p c =
     (let pf = flux_bias_line_options p;
          a = (pocket_width p / 2, fbl_height pf / 2);
          b = (pad_width p / 2 + l_arm_length p + fbl_sep pf
                 + (l_width p + fbl_cpw_width pf) / 2, 0.5 * fbl_height pf);
          c' = (pad_width p / 2 + l_arm_length p + fbl_sep pf
                 + (l_width p + fbl_cpw_width pf) / 2, 0.5 * - fbl_height pf);
          d = (pocket_width p / 2, - fbl_height pf / 2);
          e = (width p / 2, - fbl_height pf / 2);
          fbl = LineString [a, b, c', d, e];
          fbl_gap = LineString [d, e];
          segments = [fbl, fbl_gap];
          segments = rotate_all segments (orientation p);
          segments = translate_all segments (pos_x p) (pos_y p);
          fbl = segments ! 0;
          fbl_gap = segments ! 1;
          c = add_qgeometry Path [(''path'', fbl)]
                (no_attributes\<lparr>attr_layer := Some 1, attr_subtract := False,
                   attr_width := Some (fbl_cpw_width pf)\<rparr>) c;
          c = add_qgeometry Path [(''path'', fbl_gap)]
                (no_attributes\<lparr>attr_layer := Some 1, attr_subtract := True,
                   attr_width := Some (fbl_cpw_width pf + 2 * fbl_cpw_gap pf)\<rparr>) c;
          fbl_pin1 = qpin_rotate_translate p d;
          fbl_pin2 = qpin_rotate_translate p e
      in add_pin ''Flux bias line'' [fbl_pin1, fbl_pin2] (fbl_cpw_width pf) True c)"

definition make_charge_line :: "fluxonium_options \<Rightarrow> component \<Rightarrow> component" where
  "make_charge_line p c =
     (let pc = charge_line_options p;
          a = height p / 2;
          b = pocket_height p / 2 + cl_sep pc;
          cl = box (- cl_cpw_width pc / 2) a (cl_cpw_width pc / 2) b;
          cl_gap = box (- cl_cpw_gap pc / 2 - cl_cpw_width pc / 2) a
                     (cl_cpw_gap pc / 2 + cl_cpw_width pc / 2) (b - cl_cpw_gap pc);
          segments = [cl, cl_gap];
          segments = rotate_all segments (orientation p);
          segments = translate_all segments (pos_x p) (pos_y p);
          cl = segments ! 0;
          cl_gap = segments ! 1;
          c = add_qgeometry Poly [(''cl'', cl)] no_attributes c;
          c = add_qgeometry Poly [(''cl_gap'', cl_gap)]
                (no_attributes\<lparr>attr_subtract := True\<rparr>) c;
          cl_pin1 = qpin_rotate_translate p (0, b);
          cl_pin2 = qpin_rotate_translate p (0, a)
      in add_pin ''Charge line'' [cl_pin1, cl_pin2] (cl_cpw_width pc) True c)"

definition make_readout_line :: "fluxonium_options \<Rightarrow> component \<Rightarrow> error + component" where
  "make_readout_line p c =
     (let pr = readout_line_options p in
      and_then (rectangle (rol_pad_width pr) (rol_pad_height pr) 0 0) (\<lambda>pad.
      and_then (rectangle (rol_pad_width pr + 2 * rol_pad_gap pr)
                  (rol_pad_height pr + 2 * rol_pad_gap pr) 0 0) (\<lambda>cutout_pad.
      let pad = translate pad 0
                  (- (rol_pad_height pr + pocket_height p) / 2 - rol_pad_sep pr - rol_pad_gap pr);
          cutout_pad = translate cutout_pad 0
                  (- (rol_pad_height pr + pocket_height p) / 2 - rol_pad_sep pr - rol_pad_gap pr);
          a = (0, - height p / 2);
          b = (0, - rol_pad_height pr - pocket_height p / 2 - rol_pad_sep pr - rol_pad_gap pr);
          cpw_readout = LineString [a, b];
          segments = [pad, cutout_pad, cpw_readout];
          segments = rotate_all segments (orientation p);
          segments = translate_all segments (pos_x p) (pos_y p);
          pad = segments ! 0;
          cutout_pad = segments ! 1;
          cpw_readout = segments ! 2;
          c = add_qgeometry Poly [(''pad'', pad)] no_attributes c;
          c = add_qgeometry Poly [(''cutout_pad'', cutout_pad)]
                (no_attributes\<lparr>attr_subtract := True\<rparr>) c;
          c = add_qgeometry Path [(''path'', cpw_readout)]
                (no_attributes\<lparr>attr_layer := Some 1, attr_subtract := False,
                   attr_width := Some (rol_cpw_width pr)\<rparr>) c;
          c = add_qgeometry Path [(''path'', cpw_readout)]
                (no_attributes\<lparr>attr_layer := Some 1, attr_subtract := True,
                   attr_width := Some (rol_cpw_width pr + 2 * rol_cpw_gap pr)\<rparr>) c;
          ro_pin1 = qpin_rotate_translate p b;
          ro_pin2 = qpin_rotate_translate p a
      in Inr (add_pin ''Readout line'' [ro_pin1, ro_pin2] (rol_cpw_width pr) True c))))"

definition FluxoniumPocket_make :: "fluxonium_options \<Rightarrow> component \<Rightarrow> error + component" where
  "FluxoniumPocket_make p c =
     and_then (make_pocket p c) (\<lambda>c.
       let c = (if make_fbl (flux_bias_line_options p) = True
                then make_flux_bias_line p c else c);
           c = (if make_cl (charge_line_options p) = True
                then make_charge_line p c else c)
       in if make_rol (readout_line_options p) = True
          then make_readout_line p c else Inr c)"

text \<open>
  Observations of a build: the shape registered under a name, the geometry of a build
  (the kind, name and shape of every entry, without the attributes), and what a function
  of the component sees of a build that may have failed.
\<close>

definition on_build :: "(component \<Rightarrow> 'a) \<Rightarrow> error + component \<Rightarrow> error + 'a" where
  "on_build f r = (case r of Inl e \<Rightarrow> Inl e | Inr c \<Rightarrow> Inr (f c))"

definition table_size :: "component \<Rightarrow> nat" where
  "table_size c = length (qgeometry_table c)"

definition shape_named :: "category \<Rightarrow> string \<Rightarrow> component \<Rightarrow> shape option" where
  "shape_named kind n c =
     (case filter (\<lambda>e. q_name e = n) (entries_of kind c) of
        [] \<Rightarrow> None
      | e # _ \<Rightarrow> Some (q_shape e))"

definition geometry :: "component \<Rightarrow> (category \<times> string \<times> shape) list" where
  "geometry c = map (\<lambda>e. (q_kind e, q_name e, q_shape e)) (qgeometry_table c)"

definition geometry_of :: "error + component \<Rightarrow> error + (category \<times> string \<times> shape) list" where
  "geometry_of r = (case r of Inl e \<Rightarrow> Inl e | Inr c \<Rightarrow> Inr (geometry c))"

definition areas_of :: "category \<Rightarrow> component \<Rightarrow> real option list" where
  "areas_of kind c = map (\<lambda>e. area (q_shape e)) (entries_of kind c)"

definition subtract_flags_of :: "category \<Rightarrow> component \<Rightarrow> bool list" where
  "subtract_flags_of kind c = map (\<lambda>e. attr_subtract (q_attributes e)) (entries_of kind c)"

definition names_in :: "category \<Rightarrow> error + component \<Rightarrow> error + string list" where
  "names_in kind r = (case r of Inl e \<Rightarrow> Inl e | Inr c \<Rightarrow> Inr (names_of kind c))"

definition pin_names_widths :: "component \<Rightarrow> (string \<times> real) list" where
  "pin_names_widths c = map (\<lambda>q. (pin_name q, pin_width q)) (pins c)"

text \<open>
  The operands of the union registered under a name, and their centres.
\<close>

definition parts_named :: "category \<Rightarrow> string \<Rightarrow> component \<Rightarrow> shape list option" where
  "parts_named kind n c = map_option parts (shape_named kind n c)"

definition centres_named :: "category \<Rightarrow> string \<Rightarrow> component \<Rightarrow> point option list option" where
  "centres_named kind n c = map_option (map centre) (parts_named kind n c)"

text \<open>
  The placement of a component: a point of the local frame, rotated by \<open>orientation\<close>
  and then translated by \<open>(pos_x, pos_y)\<close>.
\<close>

definition place :: "'a qcomponent_options_scheme \<Rightarrow> point \<Rightarrow> point" where
  "place p P = translate_point (pos_x p) (pos_y p) (rotate_point (orientation p) P)"

text \<open>
  The relative vector between the poly entries registered under two names.
\<close>

definition poly_relative_vector :: "string \<Rightarrow> string \<Rightarrow> error + component \<Rightarrow> point option" where
  "poly_relative_vector a b r =
     (case r of
        Inl e \<Rightarrow> None
      | Inr c \<Rightarrow>
          (case (shape_named Poly a c, shape_named Poly b c) of
             (Some s, Some t) \<Rightarrow> relative_vector s t
           | _ \<Rightarrow> None))"

definition widths_of :: "category \<Rightarrow> component \<Rightarrow> real option list" where
  "widths_of kind c = map (\<lambda>e. attr_width (q_attributes e)) (entries_of kind c)"

definition gds_cell_names_of :: "category \<Rightarrow> component \<Rightarrow> string option list" where
  "gds_cell_names_of kind c = map (\<lambda>e. attr_gds_cell_name (q_attributes e)) (entries_of kind c)"

text \<open>
  The names that \<^verbatim>\<open>make_jj_array\<close> formats for the index \<open>idx\<close>.
\<close>

definition jj_pad_name :: "nat \<Rightarrow> string" where
  "jj_pad_name idx = ''jj_pad_'' @ format_d idx"

definition rect_jj_name :: "nat \<Rightarrow> string" where
  "rect_jj_name idx = ''rect_jj_'' @ format_d idx"

definition gds_cell_name :: "nat \<Rightarrow> string" where
  "gds_cell_name idx = ''FakeJunction_0'' @ format_d (idx + 1)"

text \<open>
  The default options of FluxoniumPocket with the flux bias line switched on, the charge
  line and the readout line off.
\<close>

definition fbl_only :: fluxonium_options where
  "fbl_only = FluxoniumPocket_default_options
       \<lparr>flux_bias_line_options :=
          (flux_bias_line_options FluxoniumPocket_default_options)\<lparr>make_fbl := True\<rparr>\<rparr>"

section \<open>Properties of the rigid transform\<close>

lemma rotate_point_0: "rotate_point 0 P = P"
  by (simp add: rotate_point_def)

lemma translate_point_0: "translate_point 0 0 P = P"
  by (simp add: translate_point_def)

lemma rotate_point_90: "rotate_point 90 P = (- snd P, fst P)"
  by (simp add: rotate_point_def)

lemma rotate_point_origin: "rotate_point angle (0, 0) = (0, 0)"
  by (simp add: rotate_point_def)

lemma rotate_point_inject:
  assumes "rotate_point angle P = rotate_point angle Q"
  shows "P = Q"
proof -
  define c where "c = cos (angle * pi / 180)"
  define s where "s = sin (angle * pi / 180)"
  define u where "u = fst P - fst Q"
  define v where "v = snd P - snd Q"
  have cs: "c * c + s * s = 1"
    unfolding c_def s_def using sin_cos_squared_add3 [of "angle * pi / 180"]
    by (simp add: add.commute)
  from assms have e1: "u * c - v * s = 0" and e2: "u * s + v * c = 0"
    by (simp_all add: rotate_point_def Let_def c_def s_def u_def v_def algebra_simps)
  have "u = u * (c * c + s * s)" by (simp add: cs)
  also have "\<dots> = (u * c - v * s) * c + (u * s + v * c) * s" by (simp add: algebra_simps)
  also have "\<dots> = 0" by (simp add: e1 e2)
  finally have u0: "u = 0" .
  have "v = v * (c * c + s * s)" by (simp add: cs)
  also have "\<dots> = (u * s + v * c) * c - (u * c - v * s) * s" by (simp add: algebra_simps)
  also have "\<dots> = 0" by (simp add: e1 e2)
  finally have v0: "v = 0" .
  from u0 v0 show ?thesis by (simp add: u_def v_def prod_eq_iff)
qed

lemma rotate_point_eq_iff [simp]:
  "rotate_point angle P = rotate_point angle Q \<longleftrightarrow> P = Q"
  using rotate_point_inject by blast

lemma translate_point_eq_iff [simp]:
  "translate_point xoff yoff P = translate_point xoff yoff Q \<longleftrightarrow> P = Q"
  by (auto simp add: translate_point_def prod_eq_iff)

lemma place_eq_iff [simp]: "place p P = place p Q \<longleftrightarrow> P = Q"
  by (simp add: place_def)

text \<open>
  A step of a build returns exactly when it does not raise: the rectangle when its width
  and height are positive, \<open>L_tot\<close> when \<open>l_ind_per_square\<close> is not zero.
\<close>

lemma and_then_Inr [simp]: "and_then (Inr x) f = f x"
  by (simp add: and_then_def)

lemma and_then_Inl [simp]: "and_then (Inl e) f = Inl e"
  by (simp add: and_then_def)

lemma and_then_eq_Inr_iff: "and_then r f = Inr y \<longleftrightarrow> (\<exists>x. r = Inr x \<and> f x = Inr y)"
  by (cases r) simp_all

lemma rectangle_eq_Inr_iff:
  "rectangle w h xoff yoff = Inr s \<longleftrightarrow>
     0 < w \<and> 0 < h \<and> s = box (- w / 2 + xoff) (- h / 2 + yoff) (w / 2 + xoff) (h / 2 + yoff)"
  by (auto simp add: rectangle_def)

lemma rectangle_positive:
  "0 < w \<Longrightarrow> 0 < h \<Longrightarrow>
   rectangle w h xoff yoff = Inr (box (- w / 2 + xoff) (- h / 2 + yoff) (w / 2 + xoff) (h / 2 + yoff))"
  by (simp add: rectangle_def)

lemma compute_L_tot_eq_Inr_iff:
  "compute_L_tot p = Inr l \<longleftrightarrow>
     l_ind_per_square p \<noteq> 0 \<and> l = l_inductance p * l_width p / l_ind_per_square p"
  by (auto simp add: compute_L_tot_def)

lemmas returns_iff = and_then_eq_Inr_iff rectangle_eq_Inr_iff compute_L_tot_eq_Inr_iff

lemmas host_defs =
  new_component_def add_qgeometry_def add_pin_def no_attributes_def entries_of_def
  names_of_def

lemmas draw_defs =
  rotate_all_def translate_all_def rotate_def translate_def box_def

text \<open>
  C8: with \<open>orientation = 0\<close> and \<open>pos_x = pos_y = 0\<close> the transform of a pin endpoint
  is the identity: the cosine term is exactly 1, the sine term exactly 0, and
  \<open>qpin_rotate_translate\<close> returns the point \<open>(x, y)\<close> it was given.
\<close>

theorem qpin_rotate_translate_identity:
  "orientation p = 0 \<Longrightarrow> pos_x p = 0 \<Longrightarrow> pos_y p = 0 \<Longrightarrow>
   cos (orientation p * 3.14159 / 180) = 1 \<and> sin (orientation p * 3.14159 / 180) = 0 \<and>
   qpin_rotate_translate p (x, y) = (x, y)"
  by (simp add: qpin_rotate_translate_def)

theorem qpin_rotate_translate_identity_witness:
  "orientation FluxoniumPocket_default_options = 0 \<and>
   pos_x FluxoniumPocket_default_options = 0 \<and>
   pos_y FluxoniumPocket_default_options = 0 \<and>
   qpin_rotate_translate FluxoniumPocket_default_options (0.4, - 0.025) = (0.4, - 0.025)"
  using qpin_rotate_translate_identity [of FluxoniumPocket_default_options "0.4" "- 0.025"]
  by (simp add: FluxoniumPocket_default_options_def)

section \<open>Properties of Frame\<close>

text \<open>
  A build of Frame returns exactly when \<open>frame_w\<close>, \<open>frame_h\<close> and \<open>f_width\<close> are
  positive, and then it registers the union of the four placed rectangles.
\<close>

lemma Frame_make_returns:
  "Frame_make p c = Inr c' \<longleftrightarrow>
     0 < frame_w p \<and> 0 < frame_h p \<and> 0 < f_width p \<and>
     c' = add_qgeometry Poly
       [(''frame'', Union
           [map_shape (place p) (box (- frame_w p / 2) (- f_width p / 2 + 4.5) (frame_w p / 2) (f_width p / 2 + 4.5)),
            map_shape (place p) (box (- f_width p / 2 + 4.5) (- frame_h p / 2) (f_width p / 2 + 4.5) (frame_h p / 2)),
            map_shape (place p) (box (- f_width p / 2 - 4.5) (- frame_h p / 2) (f_width p / 2 - 4.5) (frame_h p / 2)),
            map_shape (place p) (box (- frame_w p / 2) (- f_width p / 2 - 4.5) (frame_w p / 2) (f_width p / 2 - 4.5))])]
       (no_attributes\<lparr>attr_layer := Some (layer p)\<rparr>) c"
  by (auto simp add: Frame_make_def and_then_eq_Inr_iff rectangle_eq_Inr_iff Let_def draw_defs place_def)

lemma centre_placed_box:
  "centre (map_shape (place p) (box x0 y0 x1 y1)) = Some (place p ((x0 + x1) / 2, (y0 + y1) / 2))"
  by (simp add: box_def vertex_mean_def place_def rotate_point_def translate_point_def Let_def
      field_simps)

lemma centres_named_Frame:
  assumes "Frame_make p new_component = Inr c"
  shows "centres_named Poly ''frame'' c
           = Some [Some (place p (0, 4.5)), Some (place p (4.5, 0)),
                   Some (place p (- 4.5, 0)), Some (place p (0, - 4.5))]"
  using assms unfolding Frame_make_returns
  by (simp add: centres_named_def parts_named_def shape_named_def host_defs centre_placed_box)

text \<open>
  C9: for every \<open>frame_w\<close> and \<open>frame_h\<close> (and \<open>f_width\<close>) of a build that returns, the
  four border rectangles of the frame that \<open>Frame.make\<close> registers have their centres at
  the constants \<open>(0, 4.5)\<close>, \<open>(4.5, 0)\<close>, \<open>(-4.5, 0)\<close> and \<open>(0, -4.5)\<close> of the local
  frame (placed by the orientation and the position of the component); these centres are
  on the border of a \<open>frame_w \<times> frame_h\<close> device, at \<open>(0, \<plusminus>frame_h/2)\<close> and
  \<open>(\<plusminus>frame_w/2, 0)\<close> of the local frame, exactly when \<open>frame_w = frame_h = 9\<close>.
\<close>

theorem Frame_make_centres_fixed:
  assumes "Frame_make p new_component = Inr c"
  shows "centres_named Poly ''frame'' c
           = Some [Some (place p (0, 4.5)), Some (place p (4.5, 0)),
                   Some (place p (- 4.5, 0)), Some (place p (0, - 4.5))] \<and>
         (centres_named Poly ''frame'' c
            = Some [Some (place p (0, frame_h p / 2)), Some (place p (frame_w p / 2, 0)),
                    Some (place p (- frame_w p / 2, 0)), Some (place p (0, - frame_h p / 2))])
           = (frame_w p = 9 \<and> frame_h p = 9)"
  unfolding centres_named_Frame [OF assms] by auto

theorem Frame_make_centres_fixed_witness:
  "Frame_make (Frame_default_options\<lparr>frame_w := 5, frame_h := 3\<rparr>) new_component
     = Inr (projr (Frame_make (Frame_default_options\<lparr>frame_w := 5, frame_h := 3\<rparr>)
              new_component)) \<and>
   centres_named Poly ''frame''
     (projr (Frame_make (Frame_default_options\<lparr>frame_w := 5, frame_h := 3\<rparr>) new_component))
     = Some [Some (0, 4.5), Some (4.5, 0), Some (- 4.5, 0), Some (0, - 4.5)] \<and>
   centres_named Poly ''frame''
     (projr (Frame_make (Frame_default_options\<lparr>frame_w := 5, frame_h := 3\<rparr>) new_component))
     \<noteq> Some [Some (0, 3 / 2), Some (5 / 2, 0), Some (- 5 / 2, 0), Some (0, - 3 / 2)]"
proof -
  have r: "Frame_make (Frame_default_options\<lparr>frame_w := 5, frame_h := 3\<rparr>) new_component
     = Inr (projr (Frame_make (Frame_default_options\<lparr>frame_w := 5, frame_h := 3\<rparr>)
              new_component))"
    by (simp add: Frame_make_def Frame_default_options_def rectangle_def Let_def)
  show ?thesis
    using r Frame_make_centres_fixed [OF r]
    by (simp add: place_def rotate_point_0 translate_point_0 Frame_default_options_def)
qed

lemmas Frame_defs = Frame_make_def Frame_default_options_def rectangle_def

text \<open>
  C3, as stated: the area of the frame of a Frame with \<open>frame_w = 9mm\<close>, \<open>frame_h = 9mm\<close>,
  \<open>f_width = 70um\<close> would be \<open>9\<cdot>0.07\<cdot>2 + 9\<cdot>0.07\<cdot>2 - 4\<cdot>0.07\<^sup>2\<close>. It is not: the four
  rectangles are 9 long and centred on the lines at distance 4.5, so two of them share a
  square of side \<open>0.07 / 2\<close> in each corner.
\<close>

theorem Frame_area_counterexample:
  "on_build (areas_of Poly) (Frame_make Frame_default_options new_component)
     \<noteq> Inr [Some (9 * 0.07 * 2 + 9 * 0.07 * 2 - 4 * 0.07\<^sup>2)]"
  by (simp add: Frame_defs host_defs draw_defs areas_of_def on_build_def rotate_point_0
      translate_point_0 power2_eq_square)

text \<open>
  C3, amended: building a Frame with \<open>frame_w = 9mm\<close>, \<open>frame_h = 9mm\<close>, \<open>f_width = 70um\<close>
  registers exactly one entry, a poly named \<open>frame\<close>, and the area of its shape (the union
  of the four border rectangles) is \<open>9\<cdot>0.07\<cdot>2 + 9\<cdot>0.07\<cdot>2 - 4\<cdot>(0.07/2)\<^sup>2\<close>.
\<close>

theorem Frame_one_entry_area:
  "on_build (names_of Poly) (Frame_make Frame_default_options new_component) = Inr [''frame''] \<and>
   on_build table_size (Frame_make Frame_default_options new_component) = Inr 1 \<and>
   on_build (areas_of Poly) (Frame_make Frame_default_options new_component)
     = Inr [Some (9 * 0.07 * 2 + 9 * 0.07 * 2 - 4 * (0.07 / 2)\<^sup>2)]"
  by (simp add: Frame_defs host_defs draw_defs areas_of_def on_build_def table_size_def
      rotate_point_0 translate_point_0 power2_eq_square)

section \<open>Properties of the pins of FluxoniumPocket\<close>

lemma sum_lessThan_14:
  fixes f :: "nat \<Rightarrow> real"
  shows "(\<Sum>m<14. f m) =
    f 0 + f 1 + f 2 + f 3 + f 4 + f 5 + f 6 + f 7 + f 8 + f 9 + f 10 + f 11 + f 12 + f 13"
  by (simp add: eval_nat_numeral)

lemma cos_coeff_values:
  "cos_coeff 0 = 1" "cos_coeff 1 = 0" "cos_coeff 2 = - 1 / 2" "cos_coeff 3 = 0"
  "cos_coeff 4 = 1 / 24" "cos_coeff 5 = 0" "cos_coeff 6 = - 1 / 720" "cos_coeff 7 = 0"
  "cos_coeff 8 = 1 / 40320" "cos_coeff 9 = 0" "cos_coeff 10 = - 1 / 3628800"
  "cos_coeff 11 = 0" "cos_coeff 12 = 1 / 479001600" "cos_coeff 13 = 0"
  by (simp_all add: cos_coeff_def fact_numeral)

lemma cos_partial_sum:
  "(\<Sum>m<14. cos_coeff m * x ^ m) =
     1 - x\<^sup>2 / 2 + x ^ 4 / 24 - x ^ 6 / 720 + x ^ 8 / 40320 - x ^ 10 / 3628800
       + x ^ 12 / 479001600"
  unfolding sum_lessThan_14 cos_coeff_values by simp

text \<open>
  The Taylor polynomial of the cosine of degree 12, less the bound of the remainder, is
  below the cosine.
\<close>

lemma cos_lower_bound:
  fixes x :: real
  assumes "0 \<le> x"
  shows "(\<Sum>m<14. cos_coeff m * x ^ m) - x ^ 14 / 87178291200 \<le> cos x"
proof -
  obtain t where t:
    "cos x = (\<Sum>m<14. cos_coeff m * x ^ m) + cos (t + 1/2 * real 14 * pi) / fact 14 * x ^ 14"
    using Maclaurin_cos_expansion [of x 14] by blast
  have f: "fact 14 = (87178291200 :: real)" by (simp add: fact_numeral)
  have "- 1 \<le> cos (t + 1/2 * real 14 * pi)" by (rule cos_ge_minus_one)
  moreover have "0 \<le> x ^ 14 / 87178291200" using assms by simp
  ultimately have
    "- 1 * (x ^ 14 / 87178291200) \<le> cos (t + 1/2 * real 14 * pi) * (x ^ 14 / 87178291200)"
    by (rule mult_right_mono)
  then show ?thesis unfolding t f by simp
qed

text \<open>
  Half of the constant 3.14159 is below \<open>pi / 2\<close>: its cosine is still positive.
\<close>

lemma cos_truncated_half_pi_pos: "0 < cos (314159 / 200000 :: real)"
proof -
  have "0 < (\<Sum>m<14. cos_coeff m * (314159 / 200000 :: real) ^ m)
             - (314159 / 200000) ^ 14 / 87178291200"
    unfolding cos_partial_sum by (simp add: power_divide)
  also have "\<dots> \<le> cos (314159 / 200000)"
    by (rule cos_lower_bound) simp
  finally show ?thesis .
qed

text \<open>
  C4: \<open>qpin_rotate_translate\<close> would compute \<open>x' = x cos \<theta> - y sin \<theta> + pos_x\<close> and
  \<open>y' = x sin \<theta> + y cos \<theta> + pos_y\<close> with \<open>\<theta> = orientation \<cdot> pi / 180\<close>. The code
  converts the degrees with the constant 3.14159 in the place of \<open>pi\<close>: at
  \<open>orientation = 90\<close> the endpoint \<open>(1, 0)\<close> does not go to the point of the formula.
\<close>

theorem qpin_rotate_translate_truncated_pi:
  "qpin_rotate_translate (FluxoniumPocket_default_options\<lparr>orientation := 90\<rparr>) (1, 0)
     \<noteq> (1 * cos (90 * pi / 180) - 0 * sin (90 * pi / 180)
            + pos_x FluxoniumPocket_default_options,
          1 * sin (90 * pi / 180) + 0 * cos (90 * pi / 180)
            + pos_y FluxoniumPocket_default_options)"
  using cos_truncated_half_pi_pos
  by (simp add: qpin_rotate_translate_def FluxoniumPocket_default_options_def)

lemma pins_make_pocket:
  assumes "make_pocket p c = Inr c'"
  shows "pins c' = pins c"
  using assms
  by (auto simp add: make_pocket_def returns_iff Let_def add_qgeometry_def)

lemmas FluxoniumPocket_defs =
  FluxoniumPocket_make_def make_pocket_def compute_L_tot_def rectangle_def
  FluxoniumPocket_default_options_def

text \<open>
  C6: a build of FluxoniumPocket with \<open>make_fbl = True\<close>, \<open>make_cl = False\<close> and
  \<open>make_rol = False\<close> registers exactly one pin, named \<open>Flux bias line\<close>, whose width is
  the configured \<open>flux_bias_line_options.cpw_width\<close>.
\<close>

theorem FluxoniumPocket_fbl_only_pin:
  assumes "FluxoniumPocket_make p new_component = Inr c"
    and "make_fbl (flux_bias_line_options p)"
    and "\<not> make_cl (charge_line_options p)"
    and "\<not> make_rol (readout_line_options p)"
  shows "pin_names_widths c = [(''Flux bias line'', fbl_cpw_width (flux_bias_line_options p))]"
proof -
  from assms obtain c1 where c1: "make_pocket p new_component = Inr c1"
    and c: "c = make_flux_bias_line p c1"
    by (auto simp add: FluxoniumPocket_make_def and_then_eq_Inr_iff Let_def)
  have "pins c1 = []"
    using pins_make_pocket [OF c1] by (simp add: new_component_def)
  then show ?thesis
    unfolding c
    by (simp add: pin_names_widths_def make_flux_bias_line_def add_pin_def add_qgeometry_def
        Let_def)
qed

theorem FluxoniumPocket_fbl_only_pin_witness:
  "FluxoniumPocket_make fbl_only new_component
     = Inr (projr (FluxoniumPocket_make fbl_only new_component)) \<and>
   make_fbl (flux_bias_line_options fbl_only) \<and>
   \<not> make_cl (charge_line_options fbl_only) \<and> \<not> make_rol (readout_line_options fbl_only) \<and>
   pin_names_widths (projr (FluxoniumPocket_make fbl_only new_component))
     = [(''Flux bias line'', 0.01)]"
proof -
  have r: "FluxoniumPocket_make fbl_only new_component
     = Inr (projr (FluxoniumPocket_make fbl_only new_component))"
    by (simp add: fbl_only_def FluxoniumPocket_defs Let_def)
  have f: "make_fbl (flux_bias_line_options fbl_only)"
    "\<not> make_cl (charge_line_options fbl_only)" "\<not> make_rol (readout_line_options fbl_only)"
    by (simp_all add: fbl_only_def FluxoniumPocket_default_options_def)
  show ?thesis
    using r f FluxoniumPocket_fbl_only_pin [OF r f]
    by (simp add: fbl_only_def FluxoniumPocket_default_options_def)
qed

section \<open>Properties of the geometry table of FluxoniumPocket\<close>

text \<open>
  C2: no \<open>make\<close> pass of FluxoniumPocket would register two entries with the same name in
  the same category. With the flux bias line switched on, \<open>make_flux_bias_line\<close>
  registers both the line and its gap under the name \<open>path\<close> in the category \<open>path\<close>.
\<close>

theorem FluxoniumPocket_duplicate_path_names:
  "names_in Path (FluxoniumPocket_make fbl_only new_component) = Inr [''path'', ''path'']"
  by (simp add: fbl_only_def FluxoniumPocket_defs names_in_def make_flux_bias_line_def
      host_defs Let_def)

text \<open>
  C5, as stated: two option sets that differ only in \<open>l_inductance\<close> would give the same
  geometry. They do not: halving \<open>l_inductance\<close> halves \<open>L_tot\<close>, from which the
  positions of the inductor and of the two wires are computed.
\<close>

theorem make_pocket_geometry_counterexample:
  "geometry_of (make_pocket (FluxoniumPocket_default_options\<lparr>l_inductance := 100\<rparr>)
       new_component)
     \<noteq> geometry_of (make_pocket FluxoniumPocket_default_options new_component)"
  by (simp add: FluxoniumPocket_defs geometry_of_def geometry_def host_defs draw_defs Let_def
      rotate_point_0 translate_point_0)

text \<open>
  C5, amended: for two option sets that differ only in \<open>l_inductance\<close> and
  \<open>l_ind_per_square\<close> and whose \<open>make_pocket\<close> returns, the geometry (the kinds, names
  and shapes of the entries) is the same exactly when the computed \<open>L_tot\<close> is the same.
\<close>

theorem make_pocket_geometry_iff_L_tot:
  assumes "make_pocket (p\<lparr>l_inductance := a, l_ind_per_square := b\<rparr>) c = Inr c1"
    and "make_pocket p c = Inr c2"
  shows "geometry c1 = geometry c2
         \<longleftrightarrow> compute_L_tot (p\<lparr>l_inductance := a, l_ind_per_square := b\<rparr>) = compute_L_tot p"
  using assms
  by (auto simp add: make_pocket_def returns_iff compute_L_tot_def Let_def geometry_def
      add_qgeometry_def draw_defs)

theorem make_pocket_geometry_iff_L_tot_witness:
  "make_pocket (FluxoniumPocket_default_options\<lparr>l_inductance := 100, l_ind_per_square := 1\<rparr>)
       new_component
     = Inr (projr (make_pocket
         (FluxoniumPocket_default_options\<lparr>l_inductance := 100, l_ind_per_square := 1\<rparr>)
         new_component)) \<and>
   make_pocket FluxoniumPocket_default_options new_component
     = Inr (projr (make_pocket FluxoniumPocket_default_options new_component)) \<and>
   compute_L_tot (FluxoniumPocket_default_options\<lparr>l_inductance := 100, l_ind_per_square := 1\<rparr>)
     = compute_L_tot FluxoniumPocket_default_options \<and>
   geometry (projr (make_pocket
       (FluxoniumPocket_default_options\<lparr>l_inductance := 100, l_ind_per_square := 1\<rparr>)
       new_component))
     = geometry (projr (make_pocket FluxoniumPocket_default_options new_component))"
proof -
  have r1: "make_pocket
       (FluxoniumPocket_default_options\<lparr>l_inductance := 100, l_ind_per_square := 1\<rparr>)
       new_component
     = Inr (projr (make_pocket
         (FluxoniumPocket_default_options\<lparr>l_inductance := 100, l_ind_per_square := 1\<rparr>)
         new_component))"
    by (simp add: FluxoniumPocket_defs Let_def)
  have r2: "make_pocket FluxoniumPocket_default_options new_component
     = Inr (projr (make_pocket FluxoniumPocket_default_options new_component))"
    by (simp add: FluxoniumPocket_defs Let_def)
  have l: "compute_L_tot
       (FluxoniumPocket_default_options\<lparr>l_inductance := 100, l_ind_per_square := 1\<rparr>)
     = compute_L_tot FluxoniumPocket_default_options"
    by (simp add: compute_L_tot_def FluxoniumPocket_default_options_def)
  show ?thesis
    using r1 r2 l make_pocket_geometry_iff_L_tot [OF r1 r2] by simp
qed

section \<open>Properties of Markers\<close>

text \<open>
  C7: building Markers with its default options registers exactly two entries, both
  polys: \<open>markers\<close>, the union of four rectangles, and \<open>markers_pk\<close> with
  \<open>subtract = True\<close>; the centres of the four rectangles are at
  \<open>(\<plusminus>marker_sep, \<plusminus>marker_sep)\<close> from \<open>(pos_x / 2, pos_y / 2)\<close>.
\<close>

theorem Markers_default_build:
  "on_build (names_of Poly) (Markers_make Markers_default_options new_component)
     = Inr [''markers'', ''markers_pk''] \<and>
   on_build table_size (Markers_make Markers_default_options new_component) = Inr 2 \<and>
   on_build (subtract_flags_of Poly) (Markers_make Markers_default_options new_component)
     = Inr [False, True] \<and>
   on_build (parts_named Poly ''markers'') (Markers_make Markers_default_options new_component)
     = Inr (Some [box 0.03 0.03 0.05 0.05, box (- 0.05) 0.03 (- 0.03) 0.05,
                  box 0.03 (- 0.05) 0.05 (- 0.03), box (- 0.05) (- 0.05) (- 0.03) (- 0.03)]) \<and>
   on_build (centres_named Poly ''markers'') (Markers_make Markers_default_options new_component)
     = Inr (Some
        [Some (pos_x Markers_default_options / 2 + marker_sep Markers_default_options,
               pos_y Markers_default_options / 2 + marker_sep Markers_default_options),
         Some (pos_x Markers_default_options / 2 - marker_sep Markers_default_options,
               pos_y Markers_default_options / 2 + marker_sep Markers_default_options),
         Some (pos_x Markers_default_options / 2 + marker_sep Markers_default_options,
               pos_y Markers_default_options / 2 - marker_sep Markers_default_options),
         Some (pos_x Markers_default_options / 2 - marker_sep Markers_default_options,
               pos_y Markers_default_options / 2 - marker_sep Markers_default_options)])"
  by (simp add: Markers_make_def Markers_default_options_def rectangle_def host_defs draw_defs
      on_build_def table_size_def subtract_flags_of_def parts_named_def centres_named_def
      shape_named_def rotate_point_0 translate_point_0 vertex_mean_def)

section \<open>Properties of JunctionArray\<close>

lemma jj_array_loop_poly_names:
  "names_of Poly (jj_array_loop p jj_pad rect_jj idxs y c)
     = names_of Poly c @ map jj_pad_name idxs"
  by (induction idxs arbitrary: y c)
     (simp_all add: Let_def names_of_def entries_of_def add_qgeometry_def jj_pad_name_def)

lemma jj_array_loop_junction_names:
  "names_of Junction (jj_array_loop p jj_pad rect_jj idxs y c)
     = names_of Junction c @ map rect_jj_name (filter (\<lambda>idx. real idx \<noteq> n_junction p) idxs)"
  by (induction idxs arbitrary: y c)
     (simp_all add: Let_def names_of_def entries_of_def add_qgeometry_def rect_jj_name_def)

lemma jj_array_loop_junction_widths:
  "widths_of Junction (jj_array_loop p jj_pad rect_jj idxs y c)
     = widths_of Junction c @
       map (\<lambda>idx. Some (junction_thickness p)) (filter (\<lambda>idx. real idx \<noteq> n_junction p) idxs)"
  by (induction idxs arbitrary: y c)
     (simp_all add: Let_def widths_of_def entries_of_def add_qgeometry_def no_attributes_def)

lemma jj_array_loop_junction_cells:
  "gds_cell_names_of Junction (jj_array_loop p jj_pad rect_jj idxs y c)
     = gds_cell_names_of Junction c @
       map (\<lambda>idx. Some (gds_cell_name idx)) (filter (\<lambda>idx. real idx \<noteq> n_junction p) idxs)"
  by (induction idxs arbitrary: y c)
     (simp_all add: Let_def gds_cell_names_of_def entries_of_def add_qgeometry_def
        no_attributes_def gds_cell_name_def)

lemma py_range_n_junction: "py_range (py_int (real n + 1)) = [0 ..< n + 1]"
proof -
  have "py_int (real n + 1) = int (n + 1)"
    unfolding py_int_def by (simp add: floor_eq_iff)
  moreover have "nat (int (n + 1)) = n + 1" by (rule nat_int)
  ultimately show ?thesis unfolding py_range_def by simp
qed

lemma filter_not_last: "filter (\<lambda>idx. real idx \<noteq> real n) [0 ..< n + 1] = [0 ..< n]"
  by simp

lemma new_component_empty:
  "names_of kind new_component = []" "widths_of kind new_component = []"
  "gds_cell_names_of kind new_component = []"
  by (simp_all add: names_of_def widths_of_def gds_cell_names_of_def entries_of_def
      new_component_def)

lemma make_buffer_ground_poly:
  "names_of Poly (make_buffer_ground p c) = names_of Poly c @ [''ground_etch'']"
  by (simp add: make_buffer_ground_def Let_def names_of_def entries_of_def add_qgeometry_def)

lemma make_buffer_ground_junction:
  "entries_of Junction (make_buffer_ground p c) = entries_of Junction c"
  by (simp add: make_buffer_ground_def Let_def entries_of_def add_qgeometry_def)

lemma make_jj_array_entries:
  assumes "n_junction p = real n"
  shows "names_of Poly (make_jj_array p new_component) = map jj_pad_name [0 ..< n + 1]"
    and "names_of Junction (make_jj_array p new_component) = map rect_jj_name [0 ..< n]"
    and "widths_of Junction (make_jj_array p new_component)
           = replicate n (Some (junction_thickness p))"
    and "gds_cell_names_of Junction (make_jj_array p new_component)
           = map Some (map gds_cell_name [0 ..< n])"
  unfolding make_jj_array_def Let_def assms py_range_n_junction
    jj_array_loop_poly_names jj_array_loop_junction_names jj_array_loop_junction_widths
    jj_array_loop_junction_cells new_component_empty filter_not_last
  by (simp_all add: map_replicate_const)

lemma format_d_digit: "n < 10 \<Longrightarrow> format_d n = [''0123456789'' ! n]"
  by (simp add: format_d.simps)

text \<open>
  C10: for every natural number \<open>n\<close> of \<open>n_junction\<close>, \<open>make_jj_array\<close> registers exactly
  \<open>n + 1\<close> poly entries, named \<open>jj_pad_0\<close> to \<open>jj_pad_n\<close>, and exactly \<open>n\<close> junction
  entries, named \<open>rect_jj_0\<close> to \<open>rect_jj_(n-1)\<close>; every junction entry has the width
  \<open>junction_thickness\<close> and the cell name \<open>FakeJunction_0\<close> followed by \<open>idx + 1\<close>.
  \<open>JunctionArray.make\<close> registers these and, after them, the one poly \<open>ground_etch\<close> of
  \<open>make_buffer_ground\<close>, and no other junction.
\<close>

theorem JunctionArray_entries:
  assumes "n_junction p = real n"
  shows "names_of Poly (make_jj_array p new_component) = map jj_pad_name [0 ..< n + 1] \<and>
         names_of Junction (make_jj_array p new_component) = map rect_jj_name [0 ..< n] \<and>
         widths_of Junction (make_jj_array p new_component)
           = replicate n (Some (junction_thickness p)) \<and>
         gds_cell_names_of Junction (make_jj_array p new_component)
           = map Some (map gds_cell_name [0 ..< n]) \<and>
         names_of Poly (JunctionArray_make p new_component)
           = map jj_pad_name [0 ..< n + 1] @ [''ground_etch''] \<and>
         entries_of Junction (JunctionArray_make p new_component)
           = entries_of Junction (make_jj_array p new_component)"
  using make_jj_array_entries [OF assms]
  by (simp add: JunctionArray_make_def make_buffer_ground_poly make_buffer_ground_junction)

theorem JunctionArray_entries_witness:
  "n_junction (JunctionArray_default_options\<lparr>n_junction := 2\<rparr>) = real 2 \<and>
   names_of Poly
     (JunctionArray_make (JunctionArray_default_options\<lparr>n_junction := 2\<rparr>) new_component)
     = [''jj_pad_0'', ''jj_pad_1'', ''jj_pad_2'', ''ground_etch''] \<and>
   names_of Junction
     (make_jj_array (JunctionArray_default_options\<lparr>n_junction := 2\<rparr>) new_component)
     = [''rect_jj_0'', ''rect_jj_1''] \<and>
   gds_cell_names_of Junction
     (make_jj_array (JunctionArray_default_options\<lparr>n_junction := 2\<rparr>) new_component)
     = [Some ''FakeJunction_01'', Some ''FakeJunction_02'']"
  using JunctionArray_entries [of "JunctionArray_default_options\<lparr>n_junction := 2\<rparr>" 2]
  by (simp add: upt_rec jj_pad_name_def rect_jj_name_def gds_cell_name_def format_d_digit
      numeral_2_eq_2)

section \<open>Relative geometry under the transform\<close>

text \<open>
  C1: the relative vector between two sub-shapes after the transform would be the
  relative vector at \<open>orientation = 0\<close>, \<open>pos = (0, 0)\<close> rotated by the orientation. In
  \<open>make_pocket\<close> the list that is rotated and translated holds \<open>poly_wire_top\<close> twice
  and \<open>poly_wire_bot\<close> not at all: at \<open>pos_x = 1\<close> the vector from \<open>poly_wire_top\<close> to
  \<open>poly_wire_bot\<close> is \<open>(-1, -0.1045)\<close>, not \<open>(0, -0.1045)\<close>. In \<open>make_jj_array\<close> the pads
  are shifted along \<open>y\<close> after the rotation: at \<open>orientation = 90\<close> the vector from
  \<open>jj_pad_0\<close> to \<open>jj_pad_1\<close> is still \<open>(0, 0.06)\<close>, not \<open>(-0.06, 0)\<close>.
\<close>

theorem relative_geometry_not_preserved:
  "poly_relative_vector ''poly_wire_top'' ''poly_wire_bot''
     (make_pocket (FluxoniumPocket_default_options\<lparr>pos_x := 1\<rparr>) new_component)
     = Some (- 1, - 0.1045) \<and>
   map_option (rotate_point 0)
     (poly_relative_vector ''poly_wire_top'' ''poly_wire_bot''
        (make_pocket FluxoniumPocket_default_options new_component))
     = Some (0, - 0.1045) \<and>
   poly_relative_vector ''jj_pad_0'' ''jj_pad_1''
     (Inr (make_jj_array (JunctionArray_default_options\<lparr>orientation := 90, n_junction := 1\<rparr>)
        new_component))
     = Some (0, 0.06) \<and>
   map_option (rotate_point 90)
     (poly_relative_vector ''jj_pad_0'' ''jj_pad_1''
        (Inr (make_jj_array (JunctionArray_default_options\<lparr>n_junction := 1\<rparr>) new_component)))
     = Some (- 0.06, 0)"
  by (simp add: poly_relative_vector_def shape_named_def relative_vector_def
      FluxoniumPocket_defs make_jj_array_def JunctionArray_default_options_def
      py_range_def py_int_def upt_rec format_d.simps
      host_defs draw_defs Let_def rotate_point_0 rotate_point_90 rotate_point_origin
      translate_point_def)

end
